theory Spec2Isabelle
  imports Complex_Main
begin

section \<open>Dates, times and formatted text\<close>

text \<open>
  A \<^verbatim>\<open>datetime.date\<close> is represented by its proleptic Gregorian ordinal
  (\<^verbatim>\<open>date.toordinal()\<close>): adding \<^verbatim>\<open>timedelta(days=i)\<close> adds \<open>i\<close>, and
  \<^verbatim>\<open>date.weekday()\<close> is \<^verbatim>\<open>(toordinal() + 6) % 7\<close> (Monday is 0).
  A \<^verbatim>\<open>datetime.time\<close> is the record of its fields. A naive datetime counts
  microseconds of wall-clock time from ordinal 0; an aware datetime is an instant, counted
  in microseconds of UTC on the same scale.
\<close>

type_synonym date = int
type_synonym datetime = int

record time =
  hour :: int
  minute :: int
  second :: int
  microsecond :: int

definition weekday :: "date \<Rightarrow> int" where
  "weekday d = (d + 6) mod 7"


definition timedelta_hours :: "int \<Rightarrow> int" where
  "timedelta_hours h = h * 3600000000"

definition combine :: "date \<Rightarrow> time \<Rightarrow> int" where
  "combine d t =
     d * 86400000000 + ((hour t * 60 + minute t) * 60 + second t) * 1000000 + microsecond t"

text \<open>
  The project's settings module is not part of the sources, so the configured time zone is
  a parameter: \<open>tz\<close> gives the UTC offset (in microseconds) in force at a wall-clock
  value, and \<^verbatim>\<open>timezone.make_aware\<close> turns the wall-clock value into the instant.
\<close>

definition make_aware :: "(int \<Rightarrow> int) \<Rightarrow> int \<Rightarrow> datetime" where
  "make_aware tz naive = naive - tz naive"

text \<open>
  An f-string is kept as the list of its pieces: literal text, and values under a format
  specification, whose rendering is the standard library's.
\<close>

datatype piece =
    Lit string
  | FmtDatetime string datetime
  | FmtFloat string real

type_synonym fstring = "piece list"

section \<open>Data model (models.py)\<close>

datatype status = Scheduled | Active | Completed | Cancelled

datatype role = Faculty | Student

datatype verification = Code | Face | Manual

datatype notification_kind =
  Makeup_scheduled | Code_generated | Attendance_marked | Reminder | Alert | Ai_suggestion

text \<open>
  \<^verbatim>\<open>MakeUpClass\<close>. The primary key is absent on an instance that was never saved.
  \<open>course\<close> and \<open>faculty\<close> hold the keys of the rows they refer to.
\<close>

record makeup_class =
  pk :: "nat option"
  course :: nat
  faculty :: nat
  title :: string
  scheduled_date :: date
  start_time :: time
  end_time :: time
  venue :: string
  remedial_code :: string
  code_expiry :: "datetime option"
  status :: status
  predicted_attendance :: "int option"

record attendance_record =
  makeup_class :: nat
  student :: nat
  is_present :: bool
  marked_at :: datetime
  verification_method :: verification
  ip_address :: "string option"

record notification =
  recipient :: nat
  notification_type :: notification_kind
  notif_title :: fstring
  message :: fstring
  is_read :: bool
  related_class :: "nat option"

text \<open>
  The store. Tables are lists of rows in the order the database returns them. The
  enrolment relation (\<^verbatim>\<open>Course.students\<close>) is read through the course's key, as are
  the course's code and the role of a user's profile.
\<close>

record db =
  students :: "nat \<Rightarrow> nat list"
  course_code :: "nat \<Rightarrow> string"
  profile_role :: "nat \<Rightarrow> role option"
  makeup_classes :: "makeup_class list"
  attendance_records :: "attendance_record list"
  notifications :: "notification list"

datatype error = DoesNotExist | MultipleObjectsReturned | ValueError | ZeroDivisionError

text \<open>\<^verbatim>\<open>Model.objects.get(...)\<close>: the single row that matches, or an exception.\<close>

definition objects_get :: "('a \<Rightarrow> bool) \<Rightarrow> 'a list \<Rightarrow> error + 'a" where
  "objects_get P rows =
     (case filter P rows of
        [] \<Rightarrow> Inl DoesNotExist
      | [r] \<Rightarrow> Inr r
      | _ # _ # _ \<Rightarrow> Inl MultipleObjectsReturned)"

text \<open>
  \<^verbatim>\<open>models.Model.save\<close>: an instance without a key is inserted under a fresh key; an
  instance with a key replaces the rows of that key, and is inserted when there are none.
\<close>

definition next_pk :: "makeup_class list \<Rightarrow> nat" where
  "next_pk rows = Suc (fold (\<lambda>r m. case pk r of None \<Rightarrow> m | Some k \<Rightarrow> max k m) rows 0)"

definition model_save :: "makeup_class \<Rightarrow> makeup_class list \<Rightarrow> makeup_class \<times> makeup_class list" where
  "model_save self rows =
     (case pk self of
        None \<Rightarrow> (let self' = self\<lparr>pk := Some (next_pk rows)\<rparr> in (self', rows @ [self']))
      | Some k \<Rightarrow>
          if list_ex (\<lambda>r. pk r = Some k) rows
          then (self, map (\<lambda>r. if pk r = Some k then self else r) rows)
          else (self, rows @ [self]))"

text \<open>
  \<^verbatim>\<open>MakeUpClass.save\<close>. The date and the end time are mandatory columns, and a date or
  time object is always true in a condition, so the test reduces to the expiry's absence.
\<close>

definition MakeUpClass_save ::
  "(int \<Rightarrow> int) \<Rightarrow> makeup_class \<Rightarrow> db \<Rightarrow> makeup_class \<times> db" where
  "MakeUpClass_save tz self d =
     (let self1 =
            (if code_expiry self = None
             then self\<lparr>code_expiry :=
                    Some (make_aware tz (combine (scheduled_date self) (end_time self))
                          + timedelta_hours 1)\<rparr>
             else self);
          (self2, rows) = model_save self1 (makeup_classes d)
      in (self2, d\<lparr>makeup_classes := rows\<rparr>))"

text \<open>\<^verbatim>\<open>MakeUpClass.is_code_valid\<close>, with \<^verbatim>\<open>timezone.now()\<close> as the parameter \<open>now\<close>.\<close>

definition is_code_valid :: "makeup_class \<Rightarrow> datetime \<Rightarrow> bool" where
  "is_code_valid self now =
     (case code_expiry self of
        Some e \<Rightarrow> if status self = Active then now < e else False
      | None \<Rightarrow> False)"

text \<open>\<^verbatim>\<open>MakeUpClass.attendance_count\<close>.\<close>

definition attendance_count :: "db \<Rightarrow> makeup_class \<Rightarrow> int" where
  "attendance_count d self =
     int (length (filter (\<lambda>r. Some (makeup_class r) = pk self \<and> is_present r)
                         (attendance_records d)))"

section \<open>Requests and responses\<close>

datatype http_method = GET | POST

text \<open>
  The request: the logged-in user, the method, the value of the bound and validated
  check-in form (\<^verbatim>\<open>form.cleaned_data['remedial_code']\<close>, absent when the form is
  not valid), and the two headers the check-in reads.
\<close>

record request =
  user :: nat
  user_full_name :: string
  is_authenticated :: bool
  request_method :: http_method
  cleaned_code :: "string option"
  http_x_forwarded_for :: "string option"
  remote_addr :: "string option"

text \<open>The \<^verbatim>\<open>result\<close> dictionary of the check-in view, one constructor per branch.\<close>

datatype checkin_result =
    Invalid_code
  | Not_enrolled
  | Not_active status
  | Already_marked string
  | Success string string

datatype 'a response =
    Render 'a
  | Redirect string
  | Redirect_login
  | Http404
  | Http405
  | Http500 error

section \<open>Notification fan-out (ai\_service.py)\<close>

definition code_notification :: "db \<Rightarrow> makeup_class \<Rightarrow> nat \<Rightarrow> notification" where
  "code_notification d mc s =
     \<lparr>recipient = s,
      notification_type = Code_generated,
      notif_title = [Lit ''Attendance Code Active: '', Lit (course_code d (course mc))],
      message =
        [Lit ''The remedial code for \"'', Lit (title mc), Lit ''\" is now active. '',
         Lit ''Use code: '', Lit (remedial_code mc), Lit '' to mark your attendance. '',
         Lit ''Code expires at '',
         (case code_expiry mc of
            Some e \<Rightarrow> FmtDatetime ''%I:%M %p'' e
          | None \<Rightarrow> Lit ''end of session''),
         Lit ''.''],
      is_read = False,
      related_class = pk mc\<rparr>"

definition send_code_notification :: "makeup_class \<Rightarrow> db \<Rightarrow> nat \<times> db" where
  "send_code_notification mc d =
     (let alerts = map (code_notification d mc) (students d (course mc))
      in (length alerts, d\<lparr>notifications := notifications d @ alerts\<rparr>))"

section \<open>Lifecycle views (views.py)\<close>

text \<open>
  \<^verbatim>\<open>activate_code\<close> and \<^verbatim>\<open>complete_class\<close>, under \<^verbatim>\<open>login_required\<close> and
  \<^verbatim>\<open>require_POST\<close>. The flash message of the response is not part of the store.
\<close>

definition activate_code ::
  "(int \<Rightarrow> int) \<Rightarrow> request \<Rightarrow> nat \<Rightarrow> db \<Rightarrow> unit response \<times> db" where
  "activate_code tz req k d =
     (if \<not> is_authenticated req then (Redirect_login, d)
      else if request_method req \<noteq> POST then (Http405, d)
      else case objects_get (\<lambda>m. pk m = Some k \<and> faculty m = user req) (makeup_classes d) of
        Inl e \<Rightarrow> if e = DoesNotExist then (Http404, d) else (Http500 e, d)
      | Inr makeup \<Rightarrow>
          (let (makeup1, d1) = MakeUpClass_save tz (makeup\<lparr>status := Active\<rparr>) d;
               (n, d2) = send_code_notification makeup1 d1
           in (Redirect ''makeup_detail'', d2)))"

definition complete_class ::
  "(int \<Rightarrow> int) \<Rightarrow> request \<Rightarrow> nat \<Rightarrow> db \<Rightarrow> unit response \<times> db" where
  "complete_class tz req k d =
     (if \<not> is_authenticated req then (Redirect_login, d)
      else if request_method req \<noteq> POST then (Http405, d)
      else case objects_get (\<lambda>m. pk m = Some k \<and> faculty m = user req) (makeup_classes d) of
        Inl e \<Rightarrow> if e = DoesNotExist then (Http404, d) else (Http500 e, d)
      | Inr makeup \<Rightarrow>
          (let (makeup1, d1) = MakeUpClass_save tz (makeup\<lparr>status := Completed\<rparr>) d
           in (Redirect ''makeup_detail'', d1)))"

section \<open>Check-in (views.py, mark\_attendance)\<close>

text \<open>\<^verbatim>\<open>x_forwarded.split(',')[0] if x_forwarded else request.META.get('REMOTE_ADDR')\<close>\<close>

definition client_ip :: "request \<Rightarrow> string option" where
  "client_ip req =
     (case http_x_forwarded_for req of
        None \<Rightarrow> remote_addr req
      | Some x \<Rightarrow> if x = [] then remote_addr req else Some (takeWhile (\<lambda>c. c \<noteq> CHR '','') x))"

definition checkin_record :: "datetime \<Rightarrow> request \<Rightarrow> nat \<Rightarrow> attendance_record" where
  "checkin_record now req k =
     \<lparr>makeup_class = k,
      student = user req,
      is_present = True,
      marked_at = now,
      verification_method = Code,
      ip_address = client_ip req\<rparr>"

definition checkin_notification :: "request \<Rightarrow> makeup_class \<Rightarrow> notification" where
  "checkin_notification req makeup =
     \<lparr>recipient = faculty makeup,
      notification_type = Attendance_marked,
      notif_title = [Lit ''Attendance Marked''],
      message = [Lit (user_full_name req), Lit '' marked attendance for \"'',
                 Lit (title makeup), Lit ''\".''],
      is_read = False,
      related_class = pk makeup\<rparr>"

definition mark_attendance ::
  "datetime \<Rightarrow> request \<Rightarrow> db \<Rightarrow> checkin_result option response \<times> db" where
  "mark_attendance now req d =
     (if \<not> is_authenticated req then (Redirect_login, d)
      else case profile_role d (user req) of
        None \<Rightarrow> (Http404, d)
      | Some r \<Rightarrow>
          if r \<noteq> Student then (Redirect ''dashboard'', d)
          else if request_method req \<noteq> POST then (Render None, d)
          else case cleaned_code req of
            None \<Rightarrow> (Render None, d)
          | Some code \<Rightarrow>
              (case objects_get (\<lambda>m. remedial_code m = code) (makeup_classes d) of
                 Inl e \<Rightarrow>
                   if e = DoesNotExist then (Render (Some Invalid_code), d) else (Http500 e, d)
               | Inr makeup \<Rightarrow>
                   if user req \<notin> set (students d (course makeup))
                   then (Render (Some Not_enrolled), d)
                   else if \<not> is_code_valid makeup now
                   then (Render (Some (Not_active (status makeup))), d)
                   else if list_ex (\<lambda>r. Some (makeup_class r) = pk makeup \<and> student r = user req)
                             (attendance_records d)
                   then (Render (Some (Already_marked (title makeup))), d)
                   else
                     (case pk makeup of
                        None \<Rightarrow> (Http500 ValueError, d)
                      | Some k \<Rightarrow>
                          (let d1 = d\<lparr>attendance_records :=
                                        attendance_records d @ [checkin_record now req k]\<rparr>;
                               d2 = d1\<lparr>notifications :=
                                        notifications d1 @ [checkin_notification req makeup]\<rparr>
                           in (Render (Some (Success (title makeup)
                                               (course_code d (course makeup)))),
                               d2)))))"

section \<open>Floating-point arithmetic\<close>

text \<open>
  Python's \<^verbatim>\<open>float\<close> values are taken as the reals they denote. Every float
  operation returns the rounding \<open>fl\<close> of its exact result, and a decimal literal denotes
  the rounding of its decimal value; \<open>fl\<close> is a parameter. The rounding to nearest of
  IEEE double precision satisfies \<open>float_model\<close>: zero is exact, and on the range of
  normal numbers the relative error is at most \<open>2\<^sup>-\<^sup>5\<^sup>3\<close>.
\<close>

definition float_model :: "(real \<Rightarrow> real) \<Rightarrow> bool" where
  "float_model fl \<longleftrightarrow>
     fl 0 = 0 \<and>
     (\<forall>x. 1 / 2 ^ 1022 \<le> \<bar>x\<bar> \<and> \<bar>x\<bar> \<le> 2 ^ 1023 \<longrightarrow> \<bar>fl x - x\<bar> \<le> \<bar>x\<bar> / 2 ^ 53)"

text \<open>\<^verbatim>\<open>a / b\<close>: true division, which raises on a zero divisor.\<close>

definition truediv :: "(real \<Rightarrow> real) \<Rightarrow> real \<Rightarrow> real \<Rightarrow> error + real" where
  "truediv fl a b = (if b = 0 then Inl ZeroDivisionError else Inr (fl (a / b)))"

definition and_then :: "error + 'a \<Rightarrow> ('a \<Rightarrow> error + 'b) \<Rightarrow> error + 'b" where
  "and_then r f = (case r of Inl e \<Rightarrow> Inl e | Inr x \<Rightarrow> f x)"

text \<open>\<^verbatim>\<open>int(x)\<close> on a float truncates towards zero.\<close>

definition py_int :: "real \<Rightarrow> int" where
  "py_int x = (if 0 \<le> x then \<lfloor>x\<rfloor> else \<lceil>x\<rceil>)"

text \<open>
  \<^verbatim>\<open>round(x, n)\<close> on a float: the float nearest to the decimal with \<open>n\<close> places
  that is nearest to \<open>x\<close>, ties going to the even last digit.
\<close>

definition round_half_even :: "real \<Rightarrow> int" where
  "round_half_even y =
     (let f = \<lfloor>y\<rfloor>; r = y - of_int f
      in if r < 1 / 2 then f
         else if 1 / 2 < r then f + 1
         else if even f then f else f + 1)"

definition py_round :: "(real \<Rightarrow> real) \<Rightarrow> real \<Rightarrow> nat \<Rightarrow> real" where
  "py_round fl x n = fl (of_int (round_half_even (x * 10 ^ n)) / 10 ^ n)"

section \<open>Attendance tally (views.py, api\_attendance\_chart)\<close>

record chart =
  present :: int
  absent :: int
  enrolled :: int
  rate :: real

definition api_attendance_chart ::
  "(real \<Rightarrow> real) \<Rightarrow> request \<Rightarrow> nat \<Rightarrow> db \<Rightarrow> chart response" where
  "api_attendance_chart fl req makeup_pk d =
     (if \<not> is_authenticated req then Redirect_login
      else case objects_get (\<lambda>m. pk m = Some makeup_pk) (makeup_classes d) of
        Inl e \<Rightarrow> if e = DoesNotExist then Http404 else Http500 e
      | Inr makeup \<Rightarrow>
          (let records = filter (\<lambda>r. Some (makeup_class r) = pk makeup) (attendance_records d);
               present' = int (length (filter is_present records));
               enrolled' = int (length (students d (course makeup)));
               absent' = enrolled' - present'
           in case (if enrolled' \<noteq> 0
                    then and_then (truediv fl (of_int present') (of_int enrolled'))
                           (\<lambda>q. Inr (py_round fl (fl (q * 100)) 1))
                    else Inr 0) of
                Inl e \<Rightarrow> Http500 e
              | Inr rate' \<Rightarrow>
                  Render \<lparr>present = present', absent = max absent' 0,
                          enrolled = enrolled', rate = rate'\<rparr>))"

section \<open>Attendance prediction (ai\_service.py, predict\_attendance)\<close>

record prediction =
  predicted_count :: int
  enrolled_count :: int
  predicted_rate :: real
  rush_level :: string
  confidence :: real

text \<open>
  The query \<^verbatim>\<open>filter(course=course, status='completed').order_by('-scheduled_date')[:10]\<close>.
  Rows of equal date keep the order of the table.
\<close>

definition past_classes :: "db \<Rightarrow> nat \<Rightarrow> makeup_class list" where
  "past_classes d c =
     take 10 (sort_key (\<lambda>m. - scheduled_date m)
                (filter (\<lambda>m. course m = c \<and> status m = Completed) (makeup_classes d)))"

text \<open>The loop that adds up the rates of the past classes.\<close>

fun rate_loop :: "(real \<Rightarrow> real) \<Rightarrow> db \<Rightarrow> int \<Rightarrow> makeup_class list \<Rightarrow> real \<Rightarrow> error + real" where
  "rate_loop fl d enrolled_count' [] total_rate' = Inr total_rate'"
| "rate_loop fl d enrolled_count' (cls # rest) total_rate' =
     (if 0 < enrolled_count'
      then and_then (truediv fl (of_int (attendance_count d cls)) (of_int enrolled_count'))
             (\<lambda>rate. rate_loop fl d enrolled_count' rest (fl (total_rate' + rate)))
      else rate_loop fl d enrolled_count' rest total_rate')"

definition day_factor :: "int \<Rightarrow> real" where
  "day_factor day =
     (if day = 0 then 85 / 100 else if day = 1 then 90 / 100 else if day = 2 then 88 / 100
      else if day = 3 then 92 / 100 else if day = 4 then 80 / 100
      else if day = 5 then 60 / 100 else if day = 6 then 45 / 100 else 80 / 100)"

definition time_factor :: "int \<Rightarrow> real" where
  "time_factor h =
     (if 9 \<le> h \<and> h \<le> 11 then 95 / 100
      else if 14 \<le> h \<and> h \<le> 16 then 90 / 100
      else if 17 \<le> h \<and> h \<le> 19 then 75 / 100
      else 65 / 100)"

definition predict_attendance ::
  "(real \<Rightarrow> real) \<Rightarrow> db \<Rightarrow> nat \<Rightarrow> date \<Rightarrow> time \<Rightarrow> error + prediction" where
  "predict_attendance fl d c scheduled start =
     (let past = past_classes d c;
          n = int (length (students d c));
          enrolled_count' = (if n = 0 then 30 else n)
      in and_then
           (if past \<noteq> []
            then and_then (rate_loop fl d enrolled_count' past 0)
                   (\<lambda>total_rate'. truediv fl total_rate' (of_nat (length past)))
            else Inr (fl (75 / 100)))
           (\<lambda>base_rate.
              let predicted_rate' =
                    fl (fl (base_rate * fl (day_factor (weekday scheduled)))
                        * fl (time_factor (hour start)));
                  predicted_count' = py_int (fl (of_int enrolled_count' * predicted_rate'));
                  rush_level' =
                    (if fl (85 / 100) < predicted_rate' then ''high''
                     else if fl (65 / 100) < predicted_rate' then ''medium''
                     else ''low'')
              in Inr \<lparr>predicted_count = predicted_count',
                      enrolled_count = enrolled_count',
                      predicted_rate = py_round fl (fl (predicted_rate' * 100)) 1,
                      rush_level = rush_level',
                      confidence =
                        py_round fl
                          (min (fl (95 / 100))
                             (fl (fl (5 / 10) + fl (of_nat (length past) * fl (5 / 100))))) 2\<rparr>))"

section \<open>Slot recommendation (ai\_service.py, get\_schedule\_recommendations)\<close>













section \<open>Pattern analysis (ai\_service.py, analyze\_attendance\_patterns)\<close>











section \<open>Example data\<close>

text \<open>
  A small store in the shape of the demo set-up script: one course with two enrolled
  students, one faculty member, and one session.
\<close>

definition demo_class :: makeup_class where
  "demo_class =
     \<lparr>pk = Some 1, course = 1, faculty = 10, title = ''Sorting Algorithms'',
      scheduled_date = 739000,
      start_time = \<lparr>hour = 10, minute = 0, second = 0, microsecond = 0\<rparr>,
      end_time = \<lparr>hour = 11, minute = 30, second = 0, microsecond = 0\<rparr>,
      venue = ''Room 301'', remedial_code = ''ABCD1234'',
      code_expiry = Some 1000, status = Active, predicted_attendance = None\<rparr>"

definition demo_db :: db where
  "demo_db =
     \<lparr>students = (\<lambda>c. if c = 1 then [20, 21] else []),
      course_code = (\<lambda>c. ''CS301''),
      profile_role = (\<lambda>u. if u = 10 then Some Faculty
                            else if u = 20 \<or> u = 21 \<or> u = 22 then Some Student else None),
      makeup_classes = [demo_class],
      attendance_records = [],
      notifications = []\<rparr>"

definition demo_request :: request where
  "demo_request =
     \<lparr>user = 20, user_full_name = ''Student1 Smith'', is_authenticated = True, request_method = POST,
      cleaned_code = Some ''ABCD1234'',
      http_x_forwarded_for = Some ''10.0.0.7, 192.168.1.1'',
      remote_addr = Some ''127.0.0.1''\<rparr>"

definition faculty_request :: request where
  "faculty_request =
     \<lparr>user = 10, user_full_name = ''Sarah Johnson'', is_authenticated = True, request_method = POST,
      cleaned_code = None, http_x_forwarded_for = None, remote_addr = Some ''127.0.0.1''\<rparr>"

text \<open>
  A course with thirty enrolled students and three completed sessions, attended by 20, 25
  and 30 of them.
\<close>

definition completed_class :: "nat \<Rightarrow> date \<Rightarrow> makeup_class" where
  "completed_class k dt = demo_class\<lparr>pk := Some k, scheduled_date := dt, status := Completed\<rparr>"

definition marks :: "nat \<Rightarrow> nat \<Rightarrow> attendance_record list" where
  "marks k n =
     map (\<lambda>s. \<lparr>makeup_class = k, student = s, is_present = True, marked_at = 0,
               verification_method = Code, ip_address = None\<rparr>) [100..<100 + n]"

definition history_db :: db where
  "history_db =
     \<lparr>students = (\<lambda>c. if c = 1 then [100..<130] else []),
      course_code = (\<lambda>c. ''CS301''),
      profile_role = (\<lambda>u. if u = 10 then Some Faculty else None),
      makeup_classes =
        [completed_class 1 738970, completed_class 2 738977, completed_class 3 738984],
      attendance_records = marks 1 20 @ marks 2 25 @ marks 3 30,
      notifications = []\<rparr>"

definition ten_o_clock :: time where
  "ten_o_clock = \<lparr>hour = 10, minute = 0, second = 0, microsecond = 0\<rparr>"

section \<open>Properties\<close>

subsection \<open>Helper lemmas\<close>

lemma objects_get_Inr: "objects_get P rows = Inr r \<longleftrightarrow> filter P rows = [r]"
  by (simp add: objects_get_def split: list.split)

lemma objects_get_DoesNotExist:
  "objects_get P rows = Inl DoesNotExist \<longleftrightarrow> filter P rows = []"
  by (simp add: objects_get_def split: list.split)






lemma MakeUpClass_save_status:
  assumes "filter (\<lambda>m. pk m = Some k \<and> Q m) (makeup_classes d) = [m0]"
    and "pk self = Some k"
  shows "map status (makeup_classes (snd (MakeUpClass_save tz self d))) =
           map (\<lambda>r. if pk r = Some k then status self else status r) (makeup_classes d)"
    and "notifications (snd (MakeUpClass_save tz self d)) = notifications d"
    and "students (snd (MakeUpClass_save tz self d)) = students d"
proof -
  have "m0 \<in> set (filter (\<lambda>m. pk m = Some k \<and> Q m) (makeup_classes d))"
    using assms(1) by simp
  then have ex: "list_ex (\<lambda>r. pk r = Some k) (makeup_classes d)"
    by (auto simp add: list_ex_iff)
  show "map status (makeup_classes (snd (MakeUpClass_save tz self d))) =
           map (\<lambda>r. if pk r = Some k then status self else status r) (makeup_classes d)"
    using ex assms(2) by (auto simp add: MakeUpClass_save_def model_save_def Let_def)
  show "notifications (snd (MakeUpClass_save tz self d)) = notifications d"
    by (simp add: MakeUpClass_save_def Let_def split: prod.split)
  show "students (snd (MakeUpClass_save tz self d)) = students d"
    by (simp add: MakeUpClass_save_def Let_def split: prod.split)
qed

lemma is_code_valid_conv:
  "is_code_valid self now \<longleftrightarrow>
     status self = Active \<and> (\<exists>e. code_expiry self = Some e \<and> now < e)"
  by (auto simp add: is_code_valid_def split: option.split)

lemma objects_get_error:
  "objects_get P rows = Inl e \<Longrightarrow> e = DoesNotExist \<or> e = MultipleObjectsReturned"
  by (cases "filter P rows"; cases "tl (filter P rows)") (auto simp add: objects_get_def)

lemma api_attendance_chart_render:
  assumes "is_authenticated req"
    and "objects_get (\<lambda>m. pk m = Some k) (makeup_classes d) = Inr makeup"
  shows "api_attendance_chart fl req k d =
     Render \<lparr>present = int (length (filter (\<lambda>r. Some (makeup_class r) = pk makeup \<and> is_present r)
                                      (attendance_records d))),
             absent = max (int (length (students d (course makeup)))
                           - int (length (filter (\<lambda>r. Some (makeup_class r) = pk makeup \<and> is_present r)
                                      (attendance_records d)))) 0,
             enrolled = int (length (students d (course makeup))),
             rate = (if students d (course makeup) = [] then 0
                     else py_round fl
                            (fl (fl (real (length (filter (\<lambda>r. Some (makeup_class r) = pk makeup \<and> is_present r)
                                      (attendance_records d)))
                                     / real (length (students d (course makeup)))) * 100)) 1)\<rparr>"
  using assms
  by (simp add: api_attendance_chart_def Let_def truediv_def and_then_def conj_commute)

lemma float_model_abs:
  assumes "float_model fl" and "1 / 1024 \<le> x" and "x \<le> 1024"
  shows "\<bar>fl x - x\<bar> \<le> 1 / 1000000000000"
proof -
  have "(1::real) / 2 ^ 1022 \<le> 1 / 2 ^ 10"
    by (intro divide_left_mono power_increasing) simp_all
  then have lo: "1 / 2 ^ 1022 \<le> \<bar>x\<bar>" using assms(2) by simp
  have "(2::real) ^ 10 \<le> 2 ^ 1023" by (intro power_increasing) simp_all
  then have hi: "\<bar>x\<bar> \<le> 2 ^ 1023" using assms(2,3) by simp
  have "\<bar>fl x - x\<bar> \<le> \<bar>x\<bar> / 2 ^ 53"
    using assms(1) lo hi unfolding float_model_def by blast
  also have "\<dots> \<le> 1024 / 2 ^ 53" using assms(2,3) by (simp add: divide_right_mono)
  also have "\<dots> \<le> 1 / 1000000000000" by simp
  finally show ?thesis .
qed

lemma float_model_between:
  assumes "float_model fl" and "lo \<le> x" and "x \<le> hi" and "1 / 1024 \<le> lo" and "hi \<le> 1024"
  shows "lo - 1 / 1000000000000 \<le> fl x \<and> fl x \<le> hi + 1 / 1000000000000"
proof -
  have "1 / 1024 \<le> x" "x \<le> 1024" using assms by linarith+
  then have "\<bar>fl x - x\<bar> \<le> 1 / 1000000000000"
    using assms(1) by (intro float_model_abs)
  then have "fl x - x \<le> 1 / 1000000000000" "x - fl x \<le> 1 / 1000000000000"
    by linarith+
  then show ?thesis using assms(2,3) by linarith
qed

lemma counts_permutation:
  assumes "set [x, y, z] = {20, 25, 30::int}"
  shows "x + y + z = 75 \<and> 20 \<le> x \<and> x \<le> 30 \<and> 20 \<le> y \<and> y \<le> 30 \<and> 20 \<le> z \<and> z \<le> 30"
proof -
  have m: "x = 20 \<or> x = 25 \<or> x = 30" "y = 20 \<or> y = 25 \<or> y = 30" "z = 20 \<or> z = 25 \<or> z = 30"
    using assms by auto
  have c: "20 = x \<or> 20 = y \<or> 20 = z" "25 = x \<or> 25 = y \<or> 25 = z" "30 = x \<or> 30 = y \<or> 30 = z"
    using assms by auto
  show ?thesis using m c by presburger
qed

lemma predicted_rate_bounds:
  fixes x y z :: int
  assumes fm: "float_model fl"
    and s: "x + y + z = 75"
    and r: "20 \<le> x" "x \<le> 30" "20 \<le> y" "y \<le> 30" "20 \<le> z" "z \<le> 30"
  defines "R \<equiv> fl (fl (fl (fl (fl (fl (fl (real_of_int x / 30)) + fl (real_of_int y / 30))
                              + fl (real_of_int z / 30)) / 3) * fl (9 / 10)) * fl (19 / 20))"
  shows "71247 / 100000 \<le> R \<and> R \<le> 71253 / 100000"
proof -
  define A B C where "A = real_of_int x / 30" and "B = real_of_int y / 30"
    and "C = real_of_int z / 30"
  have sum: "A + B + C = 5 / 2"
  proof -
    have "real_of_int x + real_of_int y + real_of_int z = real_of_int (x + y + z)" by simp
    then show ?thesis unfolding A_def B_def C_def s by simp
  qed
  have rg: "2 / 3 \<le> A" "A \<le> 1" "2 / 3 \<le> B" "B \<le> 1" "2 / 3 \<le> C" "C \<le> 1"
    using r unfolding A_def B_def C_def by simp_all
  have a: "A - 1 / 1000000000000 \<le> fl A \<and> fl A \<le> A + 1 / 1000000000000"
    using rg by (intro float_model_between [OF fm]) simp_all
  have b: "B - 1 / 1000000000000 \<le> fl B \<and> fl B \<le> B + 1 / 1000000000000"
    using rg by (intro float_model_between [OF fm]) simp_all
  have c: "C - 1 / 1000000000000 \<le> fl C \<and> fl C \<le> C + 1 / 1000000000000"
    using rg by (intro float_model_between [OF fm]) simp_all
  have a': "A - 2 / 1000000000000 \<le> fl (fl A) \<and> fl (fl A) \<le> A + 2 / 1000000000000"
    using float_model_between [OF fm, of "A - 1 / 1000000000000" "fl A" "A + 1 / 1000000000000"]
      a rg by simp
  have s1: "A + B - 4 / 1000000000000 \<le> fl (fl (fl A) + fl B)
            \<and> fl (fl (fl A) + fl B) \<le> A + B + 4 / 1000000000000"
    using float_model_between [OF fm, of "A + B - 3 / 1000000000000" "fl (fl A) + fl B"
        "A + B + 3 / 1000000000000"] a' b rg by simp
  have s2: "5 / 2 - 6 / 1000000000000 \<le> fl (fl (fl (fl A) + fl B) + fl C)
            \<and> fl (fl (fl (fl A) + fl B) + fl C) \<le> 5 / 2 + 6 / 1000000000000"
    using float_model_between [OF fm, of "5 / 2 - 5 / 1000000000000"
        "fl (fl (fl A) + fl B) + fl C" "5 / 2 + 5 / 1000000000000"] s1 c sum by simp
  define base where "base = fl (fl (fl (fl (fl A) + fl B) + fl C) / 3)"
  have base: "83333 / 100000 \<le> base \<and> base \<le> 83334 / 100000"
    unfolding base_def
    using float_model_between [OF fm, of "833332 / 1000000"
        "fl (fl (fl (fl A) + fl B) + fl C) / 3" "833334 / 1000000"] s2 by simp
  have df: "89999 / 100000 \<le> fl (9 / 10) \<and> fl (9 / 10) \<le> 90001 / 100000"
    using float_model_between [OF fm, of "9 / 10" "9 / 10" "9 / 10"] by simp
  have tf: "94999 / 100000 \<le> fl (19 / 20) \<and> fl (19 / 20) \<le> 95001 / 100000"
    using float_model_between [OF fm, of "19 / 20" "19 / 20" "19 / 20"] by simp
  have m1lo: "(83333 / 100000) * (89999 / 100000) \<le> base * fl (9 / 10)"
    using base df by (intro mult_mono) simp_all
  have m1hi: "base * fl (9 / 10) \<le> (83334 / 100000) * (90001 / 100000)"
    using base df by (intro mult_mono) simp_all
  define p1 where "p1 = fl (base * fl (9 / 10))"
  have p1: "74998 / 100000 \<le> p1 \<and> p1 \<le> 75002 / 100000"
    unfolding p1_def
    using float_model_between [OF fm, of "749988 / 1000000" "base * fl (9 / 10)"
        "750015 / 1000000"] m1lo m1hi by simp
  have m2lo: "(74998 / 100000) * (94999 / 100000) \<le> p1 * fl (19 / 20)"
    using p1 tf by (intro mult_mono) simp_all
  have m2hi: "p1 * fl (19 / 20) \<le> (75002 / 100000) * (95001 / 100000)"
    using p1 tf by (intro mult_mono) simp_all
  have "R = fl (p1 * fl (19 / 20))"
    unfolding R_def p1_def base_def A_def B_def C_def by simp
  moreover have "71247 / 100000 \<le> fl (p1 * fl (19 / 20))
       \<and> fl (p1 * fl (19 / 20)) \<le> 71253 / 100000"
    using float_model_between [OF fm, of "712473 / 1000000" "p1 * fl (19 / 20)"
        "712527 / 1000000"] m2lo m2hi by simp
  ultimately show ?thesis by simp
qed

lemma round_half_even_near:
  "real_of_int (round_half_even y) \<le> y + 1 \<and> y - 1 \<le> real_of_int (round_half_even y)"
proof -
  show ?thesis by (auto simp add: round_half_even_def Let_def; linarith)
qed

lemma history_counts:
  "past_classes history_db 1 =
     [completed_class 3 738984, completed_class 2 738977, completed_class 1 738970]"
  "attendance_count history_db (completed_class 1 738970) = 20"
  "attendance_count history_db (completed_class 2 738977) = 25"
  "attendance_count history_db (completed_class 3 738984) = 30"
  "length (students history_db 1) = 30"
  by (simp_all add: past_classes_def attendance_count_def history_db_def completed_class_def
      demo_class_def marks_def o_def)


















subsection \<open>Code validity\<close>

text \<open>
  Claim C3. For every session and every current time, \<open>is_code_valid\<close> holds exactly when
  the session's status is active and the current time is strictly before the stored
  expiry (a session without a stored expiry is never valid); in particular it does not
  hold when the current time equals the expiry.
\<close>

theorem is_code_valid_iff:
  "(is_code_valid self now \<longleftrightarrow>
      status self = Active \<and> (\<exists>e. code_expiry self = Some e \<and> now < e))
   \<and> (code_expiry self = Some now \<longrightarrow> \<not> is_code_valid self now)"
  by (auto simp add: is_code_valid_def split: option.split)

theorem is_code_valid_iff_witness:
  "is_code_valid demo_class 999 \<and> \<not> is_code_valid demo_class 1000
   \<and> \<not> is_code_valid (demo_class\<lparr>status := Scheduled\<rparr>) 999"
  using is_code_valid_iff [of demo_class 999] is_code_valid_iff [of demo_class 1000]
    is_code_valid_iff [of "demo_class\<lparr>status := Scheduled\<rparr>" 999]
  by (simp add: demo_class_def)

subsection \<open>Default expiry\<close>



subsection \<open>Status transitions\<close>

text \<open>
  Claim C7 (as stated): no core operation changes the status of a session that is completed
  or cancelled. The views have no guard on the current status: activating a completed
  session makes it active again.
\<close>

theorem completed_session_reactivated:
  "map status (makeup_classes (demo_db\<lparr>makeup_classes := [demo_class\<lparr>status := Completed\<rparr>]\<rparr>))
     = [Completed]
   \<and> map status (makeup_classes
     (snd (activate_code (\<lambda>t. 0) faculty_request 1
            (demo_db\<lparr>makeup_classes := [demo_class\<lparr>status := Completed\<rparr>]\<rparr>)))) = [Active]"
  by (simp add: activate_code_def objects_get_def MakeUpClass_save_def model_save_def
      send_code_notification_def demo_db_def demo_class_def faculty_request_def Let_def)

text \<open>
  Claim C7 (amended). For a POST request of the owning faculty member, \<open>activate_code\<close>
  stores the status active and \<open>complete_class\<close> stores the status completed for the
  session of the given key, whatever its status was before; the status of every other
  session is unchanged.
\<close>

theorem lifecycle_status_overwrite:
  assumes "is_authenticated req" and "request_method req = POST"
    and "filter (\<lambda>m. pk m = Some k \<and> faculty m = user req) (makeup_classes d) = [makeup]"
  shows "map status (makeup_classes (snd (activate_code tz req k d))) =
           map (\<lambda>r. if pk r = Some k then Active else status r) (makeup_classes d)
       \<and> map status (makeup_classes (snd (complete_class tz req k d))) =
           map (\<lambda>r. if pk r = Some k then Completed else status r) (makeup_classes d)"
proof -
  have "makeup \<in> set (filter (\<lambda>m. pk m = Some k \<and> faculty m = user req) (makeup_classes d))"
    using assms(3) by simp
  then have pkm: "pk makeup = Some k" by simp
  have og: "objects_get (\<lambda>m. pk m = Some k \<and> faculty m = user req) (makeup_classes d) = Inr makeup"
    using assms(3) by (simp add: objects_get_Inr)
  have a: "map status (makeup_classes (snd (MakeUpClass_save tz (makeup\<lparr>status := Active\<rparr>) d))) =
           map (\<lambda>r. if pk r = Some k then Active else status r) (makeup_classes d)"
    using MakeUpClass_save_status(1) [OF assms(3), of "makeup\<lparr>status := Active\<rparr>" tz] pkm by simp
  have c: "map status (makeup_classes (snd (MakeUpClass_save tz (makeup\<lparr>status := Completed\<rparr>) d))) =
           map (\<lambda>r. if pk r = Some k then Completed else status r) (makeup_classes d)"
    using MakeUpClass_save_status(1) [OF assms(3), of "makeup\<lparr>status := Completed\<rparr>" tz] pkm by simp
  have "map status (makeup_classes (snd (activate_code tz req k d))) =
           map (\<lambda>r. if pk r = Some k then Active else status r) (makeup_classes d)"
    using assms(1,2) a
    by (auto simp add: activate_code_def og send_code_notification_def Let_def split: prod.split)
  moreover have "map status (makeup_classes (snd (complete_class tz req k d))) =
           map (\<lambda>r. if pk r = Some k then Completed else status r) (makeup_classes d)"
    using assms(1,2) c
    by (auto simp add: complete_class_def og Let_def split: prod.split)
  ultimately show ?thesis by simp
qed

theorem lifecycle_status_overwrite_witness:
  "map status (makeup_classes
     (snd (activate_code (\<lambda>t. 0) faculty_request 1
            (demo_db\<lparr>makeup_classes := [demo_class\<lparr>status := Cancelled\<rparr>]\<rparr>)))) = [Active]
   \<and> map status (makeup_classes
     (snd (complete_class (\<lambda>t. 0) faculty_request 1
            (demo_db\<lparr>makeup_classes := [demo_class\<lparr>status := Cancelled\<rparr>]\<rparr>)))) = [Completed]"
  using lifecycle_status_overwrite [where req = faculty_request and k = 1
      and d = "demo_db\<lparr>makeup_classes := [demo_class\<lparr>status := Cancelled\<rparr>]\<rparr>"
      and makeup = "demo_class\<lparr>status := Cancelled\<rparr>" and tz = "\<lambda>t. 0"]
  by (simp add: demo_db_def demo_class_def faculty_request_def)

subsection \<open>Check-in\<close>

text \<open>
  Claim C1. For a check-in posted by a student with a valid form, the outcome is decided in
  this order: no session has the code (\<open>Invalid_code\<close>); else the student is not enrolled
  in the session's course (\<open>Not_enrolled\<close>), whatever the status and the expiry; else the
  session is not active, or has no expiry, or the current time has reached the expiry
  (\<open>Not_active\<close>), whatever the marks; else a mark exists for the session and the student
  (\<open>Already_marked\<close>); else \<open>Success\<close>.
\<close>

theorem mark_attendance_precedence:
  assumes "is_authenticated req" and "profile_role d (user req) = Some Student"
    and "request_method req = POST" and "cleaned_code req = Some c"
  shows
    "((\<forall>m. m \<in> set (makeup_classes d) \<longrightarrow> remedial_code m \<noteq> c) \<longrightarrow>
        fst (mark_attendance now req d) = Render (Some Invalid_code))
     \<and> (filter (\<lambda>m. remedial_code m = c) (makeup_classes d) = [m] \<longrightarrow>
         (user req \<notin> set (students d (course m)) \<longrightarrow>
            fst (mark_attendance now req d) = Render (Some Not_enrolled))
         \<and> (user req \<in> set (students d (course m))
              \<and> (status m \<noteq> Active \<or> code_expiry m = None
                  \<or> (\<exists>e. code_expiry m = Some e \<and> e \<le> now)) \<longrightarrow>
            fst (mark_attendance now req d) = Render (Some (Not_active (status m))))
         \<and> (user req \<in> set (students d (course m))
              \<and> status m = Active \<and> (\<exists>e. code_expiry m = Some e \<and> now < e)
              \<and> (\<exists>r. r \<in> set (attendance_records d)
                       \<and> Some (makeup_class r) = pk m \<and> student r = user req) \<longrightarrow>
            fst (mark_attendance now req d) = Render (Some (Already_marked (title m))))
         \<and> (user req \<in> set (students d (course m))
              \<and> status m = Active \<and> (\<exists>e. code_expiry m = Some e \<and> now < e)
              \<and> (\<forall>r. r \<in> set (attendance_records d) \<longrightarrow>
                       \<not> (Some (makeup_class r) = pk m \<and> student r = user req))
              \<and> pk m \<noteq> None \<longrightarrow>
            fst (mark_attendance now req d)
              = Render (Some (Success (title m) (course_code d (course m))))))"
proof (intro conjI impI)
  assume "\<forall>m. m \<in> set (makeup_classes d) \<longrightarrow> remedial_code m \<noteq> c"
  then have "filter (\<lambda>m. remedial_code m = c) (makeup_classes d) = []"
    by (simp add: filter_empty_conv)
  then have "objects_get (\<lambda>m. remedial_code m = c) (makeup_classes d) = Inl DoesNotExist"
    by (simp add: objects_get_DoesNotExist)
  then show "fst (mark_attendance now req d) = Render (Some Invalid_code)"
    using assms by (simp add: mark_attendance_def)
next
  assume "filter (\<lambda>m. remedial_code m = c) (makeup_classes d) = [m]"
  then have og: "objects_get (\<lambda>m. remedial_code m = c) (makeup_classes d) = Inr m"
    by (simp add: objects_get_Inr)
  {
    assume "user req \<notin> set (students d (course m))"
    then show "fst (mark_attendance now req d) = Render (Some Not_enrolled)"
      using assms og by (simp add: mark_attendance_def)
  next
    assume "user req \<in> set (students d (course m))
              \<and> (status m \<noteq> Active \<or> code_expiry m = None
                  \<or> (\<exists>e. code_expiry m = Some e \<and> e \<le> now))"
    then have e: "user req \<in> set (students d (course m))" and "\<not> is_code_valid m now"
      using is_code_valid_conv [of m now] by auto
    then show "fst (mark_attendance now req d) = Render (Some (Not_active (status m)))"
      using assms og by (simp add: mark_attendance_def)
  next
    assume h: "user req \<in> set (students d (course m))
              \<and> status m = Active \<and> (\<exists>e. code_expiry m = Some e \<and> now < e)
              \<and> (\<exists>r. r \<in> set (attendance_records d)
                       \<and> Some (makeup_class r) = pk m \<and> student r = user req)"
    then have v: "is_code_valid m now" using is_code_valid_conv [of m now] by auto
    have "list_ex (\<lambda>r. Some (makeup_class r) = pk m \<and> student r = user req)
            (attendance_records d)"
      using h by (auto simp add: list_ex_iff)
    then show "fst (mark_attendance now req d) = Render (Some (Already_marked (title m)))"
      using assms og v h by (simp add: mark_attendance_def)
  next
    assume h: "user req \<in> set (students d (course m))
              \<and> status m = Active \<and> (\<exists>e. code_expiry m = Some e \<and> now < e)
              \<and> (\<forall>r. r \<in> set (attendance_records d) \<longrightarrow>
                       \<not> (Some (makeup_class r) = pk m \<and> student r = user req))
              \<and> pk m \<noteq> None"
    then have v: "is_code_valid m now" using is_code_valid_conv [of m now] by auto
    have "\<not> list_ex (\<lambda>r. Some (makeup_class r) = pk m \<and> student r = user req)
            (attendance_records d)"
      using h by (auto simp add: list_ex_iff)
    then show "fst (mark_attendance now req d)
              = Render (Some (Success (title m) (course_code d (course m))))"
      using assms og v h by (auto simp add: mark_attendance_def Let_def)
  }
qed


theorem mark_attendance_precedence_witness:
  "fst (mark_attendance 2000 (demo_request\<lparr>cleaned_code := Some ''ZZZZ0000''\<rparr>) demo_db)
     = Render (Some Invalid_code)
   \<and> fst (mark_attendance 2000 (demo_request\<lparr>user := 22\<rparr>) demo_db)
     = Render (Some Not_enrolled)
   \<and> fst (mark_attendance 2000 demo_request demo_db) = Render (Some (Not_active Active))
   \<and> fst (mark_attendance 999 demo_request
            (demo_db\<lparr>attendance_records := [checkin_record 500 demo_request 1]\<rparr>))
     = Render (Some (Already_marked ''Sorting Algorithms''))
   \<and> fst (mark_attendance 999 demo_request demo_db)
     = Render (Some (Success ''Sorting Algorithms'' ''CS301''))"
  using
    mark_attendance_precedence [where req = "demo_request\<lparr>cleaned_code := Some ''ZZZZ0000''\<rparr>"
      and d = demo_db and c = "''ZZZZ0000''" and now = 2000 and m = demo_class]
    mark_attendance_precedence [where req = "demo_request\<lparr>user := 22\<rparr>"
      and d = demo_db and c = "''ABCD1234''" and now = 2000 and m = demo_class]
    mark_attendance_precedence [where req = demo_request
      and d = demo_db and c = "''ABCD1234''" and now = 2000 and m = demo_class]
    mark_attendance_precedence [where req = demo_request
      and d = "demo_db\<lparr>attendance_records := [checkin_record 500 demo_request 1]\<rparr>"
      and c = "''ABCD1234''" and now = 999 and m = demo_class]
    mark_attendance_precedence [where req = demo_request
      and d = demo_db and c = "''ABCD1234''" and now = 999 and m = demo_class]
  by (simp add: demo_request_def demo_db_def demo_class_def checkin_record_def)



subsection \<open>Attendance tally\<close>

text \<open>
  Claim C10. The tally query never fails with a division by zero. For a logged-in user and
  an existing session it returns the counts of present marks and of enrolled students, the
  absent count \<open>max (enrolled - present) 0\<close>, which is never negative, and the rate 0
  when nobody is enrolled.
\<close>

theorem api_attendance_chart_total:
  "api_attendance_chart fl req k d \<noteq> Http500 ZeroDivisionError
   \<and> (is_authenticated req
        \<and> filter (\<lambda>m. pk m = Some k) (makeup_classes d) = [makeup] \<longrightarrow>
        (\<exists>c. api_attendance_chart fl req k d = Render c
             \<and> present c = int (length (filter (\<lambda>r. Some (makeup_class r) = pk makeup \<and> is_present r)
                                           (attendance_records d)))
             \<and> enrolled c = int (length (students d (course makeup)))
             \<and> absent c = max (enrolled c - present c) 0
             \<and> 0 \<le> absent c
             \<and> (enrolled c = 0 \<longrightarrow> rate c = 0)))"
proof (intro conjI impI)
  show "api_attendance_chart fl req k d \<noteq> Http500 ZeroDivisionError"
  proof (cases "is_authenticated req")
    case False
    then show ?thesis by (simp add: api_attendance_chart_def)
  next
    case True
    show ?thesis
    proof (cases "objects_get (\<lambda>m. pk m = Some k) (makeup_classes d)")
      case (Inl e)
      then have "e = DoesNotExist \<or> e = MultipleObjectsReturned"
        by (rule objects_get_error)
      then show ?thesis using True Inl by (auto simp add: api_attendance_chart_def)
    next
      case (Inr makeup)
      show ?thesis
        by (simp add: api_attendance_chart_render [OF True Inr])
    qed
  qed
next
  assume a: "is_authenticated req
        \<and> filter (\<lambda>m. pk m = Some k) (makeup_classes d) = [makeup]"
  then have og: "objects_get (\<lambda>m. pk m = Some k) (makeup_classes d) = Inr makeup"
    by (simp add: objects_get_Inr)
  from a have auth: "is_authenticated req" by simp
  show "\<exists>c. api_attendance_chart fl req k d = Render c
             \<and> present c = int (length (filter (\<lambda>r. Some (makeup_class r) = pk makeup \<and> is_present r)
                                           (attendance_records d)))
             \<and> enrolled c = int (length (students d (course makeup)))
             \<and> absent c = max (enrolled c - present c) 0
             \<and> 0 \<le> absent c
             \<and> (enrolled c = 0 \<longrightarrow> rate c = 0)"
    by (simp add: api_attendance_chart_render [OF auth og])
qed

theorem api_attendance_chart_total_witness:
  "api_attendance_chart (\<lambda>x. x) demo_request 1
     (demo_db\<lparr>students := (\<lambda>c. []),
              attendance_records := [checkin_record 500 demo_request 1]\<rparr>)
   = Render \<lparr>present = 1, absent = 0, enrolled = 0, rate = 0\<rparr>"
  using api_attendance_chart_total [where fl = "\<lambda>x. x" and req = demo_request and k = 1
      and d = "demo_db\<lparr>students := (\<lambda>c. []),
              attendance_records := [checkin_record 500 demo_request 1]\<rparr>"
      and makeup = demo_class]
  by (auto simp add: checkin_record_def demo_request_def demo_db_def demo_class_def)

subsection \<open>Attendance prediction\<close>

text \<open>
  Claim C5. For a course with 30 enrolled students and exactly three completed sessions with
  20, 25 and 30 present marks (in any order), and a target on a Tuesday at 10 o'clock, the
  day factor is 0.90, the time factor is 0.95, and under every rounding that satisfies the
  floating-point model the prediction succeeds with enrolled count 30, predicted count 21
  and rush level medium; the reported rate is 71.2 or 71.3 percent up to rounding. With
  exact arithmetic (the witness) the base rate is 5/6, the predicted rate 0.7125, and the
  reported rate 71.2.
\<close>

theorem predict_attendance_example:
  assumes "float_model fl"
    and "length (students d c) = 30"
    and "map (attendance_count d) (past_classes d c) = [x, y, z]"
    and "set [x, y, z] = {20, 25, 30}"
    and "weekday scheduled = 1" and "hour start = 10"
  shows "day_factor (weekday scheduled) = 90 / 100 \<and> time_factor (hour start) = 95 / 100
     \<and> (\<exists>p. predict_attendance fl d c scheduled start = Inr p
           \<and> enrolled_count p = 30 \<and> predicted_count p = 21 \<and> rush_level p = ''medium''
           \<and> 7119 / 100 \<le> predicted_rate p \<and> predicted_rate p \<le> 7131 / 100)"
proof -
  from assms(3) obtain m1 m2 m3 where past: "past_classes d c = [m1, m2, m3]"
    and cnt: "attendance_count d m1 = x" "attendance_count d m2 = y" "attendance_count d m3 = z"
    by (auto simp add: map_eq_Cons_conv)
  note perm = counts_permutation [OF assms(4)]
  define R where "R = fl (fl (fl (fl (fl (fl (fl (real_of_int x / 30)) + fl (real_of_int y / 30))
                              + fl (real_of_int z / 30)) / 3) * fl (9 / 10)) * fl (19 / 20))"
  have R: "71247 / 100000 \<le> R \<and> R \<le> 71253 / 100000"
    unfolding R_def using perm by (intro predicted_rate_bounds [OF assms(1)]) simp_all
  have hi: "\<not> fl (17 / 20) < R"
    using float_model_between [OF assms(1), of "17 / 20" "17 / 20" "17 / 20"] R by simp
  have lo: "fl (13 / 20) < R"
    using float_model_between [OF assms(1), of "13 / 20" "13 / 20" "13 / 20"] R by simp
  have c30: "2137 / 100 \<le> fl (30 * R) \<and> fl (30 * R) \<le> 2138 / 100"
    using float_model_between [OF assms(1), of "213741 / 10000" "30 * R" "213759 / 10000"] R
    by simp
  then have "\<lfloor>fl (30 * R)\<rfloor> = 21" by linarith
  then have count: "py_int (fl (30 * R)) = 21" using c30 by (simp add: py_int_def)
  have c100: "71246 / 1000 \<le> fl (R * 100) \<and> fl (R * 100) \<le> 71254 / 1000"
    using float_model_between [OF assms(1), of "71247 / 1000" "R * 100" "71253 / 1000"] R
    by simp
  define q where "q = round_half_even (fl (R * 100) * 10 ^ 1)"
  have "71146 / 100 \<le> real_of_int q \<and> real_of_int q \<le> 71354 / 100"
    unfolding q_def using round_half_even_near [of "fl (R * 100) * 10 ^ 1"] c100 by simp
  then have "712 \<le> q \<and> q \<le> 713" by linarith
  then have "712 / 10 \<le> real_of_int q / 10 ^ 1 \<and> real_of_int q / 10 ^ 1 \<le> 713 / 10"
    by simp
  then have pr: "7119 / 100 \<le> py_round fl (fl (R * 100)) 1
       \<and> py_round fl (fl (R * 100)) 1 \<le> 7131 / 100"
    unfolding py_round_def q_def [symmetric]
    using float_model_between [OF assms(1), of "712 / 10" "real_of_int q / 10 ^ 1" "713 / 10"]
    by simp
  have "predict_attendance fl d c scheduled start =
      Inr \<lparr>predicted_count = py_int (fl (30 * R)), enrolled_count = 30,
           predicted_rate = py_round fl (fl (R * 100)) 1,
           rush_level = ''medium'',
           confidence = py_round fl (min (fl (95 / 100)) (fl (fl (5 / 10) + fl (3 * fl (5 / 100))))) 2\<rparr>"
    using hi lo unfolding R_def
    by (simp add: predict_attendance_def past cnt assms(2,5,6) and_then_def truediv_def Let_def
        day_factor_def time_factor_def)
  then show ?thesis using count pr
    by (simp add: assms(5,6) day_factor_def time_factor_def)
qed


theorem predict_attendance_example_witness:
  "predict_attendance (\<lambda>x. x) history_db 1 738999 ten_o_clock =
     Inr \<lparr>predicted_count = 21, enrolled_count = 30, predicted_rate = 712 / 10,
          rush_level = ''medium'', confidence = 65 / 100\<rparr>"
proof -
  have fm: "float_model (\<lambda>x. x)" by (simp add: float_model_def)
  have h2: "length (students history_db 1) = 30" by (rule history_counts)
  have h3: "map (attendance_count history_db) (past_classes history_db 1) = [30, 25, 20]"
    unfolding history_counts(1) by (simp only: list.map history_counts)
  have h4: "set [30, 25, 20] = {20, 25, 30::int}" by auto
  have h5: "weekday 738999 = 1" by (simp add: weekday_def)
  have h6: "hour ten_o_clock = 10" by (simp add: ten_o_clock_def)
  note e = predict_attendance_example [OF fm h2 h3 h4 h5 h6]
  have "predict_attendance (\<lambda>x. x) history_db 1 738999 ten_o_clock =
     Inr \<lparr>predicted_count = 21, enrolled_count = 30, predicted_rate = 712 / 10,
          rush_level = ''medium'', confidence = 65 / 100\<rparr>"
    unfolding predict_attendance_def history_counts
    by (simp add: history_counts [unfolded One_nat_def] and_then_def truediv_def Let_def
        day_factor_def time_factor_def weekday_def ten_o_clock_def py_int_def py_round_def
        round_half_even_def)
  then show ?thesis using e by simp
qed

text \<open>
  Claim C6 (as stated): the ranges of the time-of-day multiplier exclude a start hour at
  their upper boundary. The comparisons of the code are inclusive: the start hour 11 has
  the multiplier 0.95, not 0.65 (and likewise 16 and 19).
\<close>

theorem time_factor_upper_boundary_inside:
  "time_factor 11 = 95 / 100 \<and> time_factor 11 \<noteq> 65 / 100
   \<and> time_factor 16 = 90 / 100 \<and> time_factor 19 = 75 / 100"
  by (simp add: time_factor_def)

text \<open>
  Claim C6 (amended). The time-of-day multiplier used by \<open>predict_attendance\<close> depends
  on the start hour only, and is 0.95 for the hours 9 to 11, 0.90 for 14 to 16, 0.75 for
  17 to 19, all bounds included, and 0.65 otherwise. On the clock the ranges are half-open:
  from 09:00 to before 12:00, from 14:00 to before 17:00, from 17:00 to before 20:00.
\<close>

theorem time_factor_ranges:
  "(9 \<le> hour t \<and> hour t \<le> 11 \<longrightarrow> time_factor (hour t) = 95 / 100)
   \<and> (14 \<le> hour t \<and> hour t \<le> 16 \<longrightarrow> time_factor (hour t) = 90 / 100)
   \<and> (17 \<le> hour t \<and> hour t \<le> 19 \<longrightarrow> time_factor (hour t) = 75 / 100)
   \<and> (hour t < 9 \<or> hour t = 12 \<or> hour t = 13 \<or> 19 < hour t \<longrightarrow>
        time_factor (hour t) = 65 / 100)
   \<and> (0 \<le> minute t \<and> minute t < 60 \<longrightarrow>
        (time_factor (hour t) = 95 / 100 \<longleftrightarrow>
           9 * 60 \<le> hour t * 60 + minute t \<and> hour t * 60 + minute t < 12 * 60)
        \<and> (time_factor (hour t) = 90 / 100 \<longleftrightarrow>
           14 * 60 \<le> hour t * 60 + minute t \<and> hour t * 60 + minute t < 17 * 60)
        \<and> (time_factor (hour t) = 75 / 100 \<longleftrightarrow>
           17 * 60 \<le> hour t * 60 + minute t \<and> hour t * 60 + minute t < 20 * 60))
   \<and> (time_factor (hour t) = time_factor (hour t') \<longrightarrow>
        predict_attendance fl d c dt t = predict_attendance fl d c dt t')"
proof (intro conjI impI)
  assume "time_factor (hour t) = time_factor (hour t')"
  then show "predict_attendance fl d c dt t = predict_attendance fl d c dt t'"
    by (simp add: predict_attendance_def)
qed (auto simp add: time_factor_def)

theorem time_factor_ranges_witness:
  "time_factor (hour \<lparr>hour = 11, minute = 59, second = 0, microsecond = 0\<rparr>) = 95 / 100
   \<and> time_factor (hour \<lparr>hour = 12, minute = 0, second = 0, microsecond = 0\<rparr>) = 65 / 100
   \<and> time_factor (hour \<lparr>hour = 16, minute = 30, second = 0, microsecond = 0\<rparr>) = 90 / 100
   \<and> time_factor (hour \<lparr>hour = 19, minute = 0, second = 0, microsecond = 0\<rparr>) = 75 / 100"
  using time_factor_ranges [where t = "\<lparr>hour = 11, minute = 59, second = 0, microsecond = 0\<rparr>"]
    time_factor_ranges [where t = "\<lparr>hour = 12, minute = 0, second = 0, microsecond = 0\<rparr>"]
    time_factor_ranges [where t = "\<lparr>hour = 16, minute = 30, second = 0, microsecond = 0\<rparr>"]
    time_factor_ranges [where t = "\<lparr>hour = 19, minute = 0, second = 0, microsecond = 0\<rparr>"]
  by simp

subsection \<open>Slot recommendation\<close>




subsection \<open>Pattern analysis\<close>



end
